theory Spec2Isabelle
  imports Main "HOL-Library.Word"
begin

unbundle bit_operations_syntax

section \<open>liburing.h: the inline part of the io_uring library interface\<close>

text \<open>
  This theory embeds the static inline functions and the iteration macro of
  \<^verbatim>\<open>src/include/liburing.h\<close>. The target is taken to be a little-endian LP64
  machine: \<^verbatim>\<open>unsigned\<close> and \<^verbatim>\<open>int\<close> are 32 bits wide, pointers,
  \<^verbatim>\<open>unsigned long\<close>, \<^verbatim>\<open>size_t\<close>, \<^verbatim>\<open>off_t\<close> and \<^verbatim>\<open>loff_t\<close> are 64 bits wide.
  Signed C integers are words read through \<open>sint\<close>. A pointer argument is the 64-bit
  address it holds, \<^verbatim>\<open>NULL\<close> being 0.

  The model is sequential: it describes one call of a library function on a ring whose
  kernel-written cells do not change during the call. The acquire and release
  annotations of the loads and stores order memory accesses between the application and
  the kernel; in a sequential model they are plain loads and stores.
\<close>

subsection \<open>Submission entries\<close>

text \<open>
  Modelled from the spec: the enumeration \<^verbatim>\<open>IORING_OP_...\<close> is declared in
  \<^verbatim>\<open>liburing/io_uring.h\<close>, which is not among the sources. Its enumerators are the
  opcodes of the spec's opcode table, under the names the preparation functions of the
  header pass to \<^verbatim>\<open>io_uring_prep_rw\<close>, whose \<^verbatim>\<open>int op\<close> parameter receives one of them
  in every call of the header.
\<close>

datatype io_uring_op =
    IORING_OP_NOP
  | IORING_OP_READV
  | IORING_OP_WRITEV
  | IORING_OP_FSYNC
  | IORING_OP_READ_FIXED
  | IORING_OP_WRITE_FIXED
  | IORING_OP_POLL_ADD
  | IORING_OP_POLL_REMOVE
  | IORING_OP_SENDMSG
  | IORING_OP_RECVMSG
  | IORING_OP_TIMEOUT
  | IORING_OP_TIMEOUT_REMOVE
  | IORING_OP_ACCEPT
  | IORING_OP_ASYNC_CANCEL
  | IORING_OP_LINK_TIMEOUT
  | IORING_OP_CONNECT
  | IORING_OP_FALLOCATE
  | IORING_OP_OPENAT
  | IORING_OP_CLOSE
  | IORING_OP_FILES_UPDATE
  | IORING_OP_STATX
  | IORING_OP_READ
  | IORING_OP_WRITE
  | IORING_OP_FADVISE
  | IORING_OP_MADVISE
  | IORING_OP_SEND
  | IORING_OP_RECV
  | IORING_OP_OPENAT2
  | IORING_OP_EPOLL_CTL
  | IORING_OP_SPLICE
  | IORING_OP_PROVIDE_BUFFERS
  | IORING_OP_REMOVE_BUFFERS

text \<open>
  Modelled from the spec: \<^verbatim>\<open>struct io_uring_sqe\<close> is declared in
  \<^verbatim>\<open>liburing/io_uring.h\<close>, which is not among the sources. The spec lists its fields:
  opcode; per-entry flags; I/O priority; file descriptor; offset; address; length; the
  per-opcode flags (rw, fsync, poll, msg, open, timeout, accept, cancel, fadvise, statx,
  splice); user-data (64 bits); fixed-buffer index or buffer-group id; the splice
  auxiliary fields; reserved padding. The header writes them under the member names
  used below.

  The record has one field per storage cell of the entry. Members that the kernel
  interface overlays in a union share a cell:
  \<^item> the per-opcode flags (\<^verbatim>\<open>rw_flags\<close>, \<^verbatim>\<open>fsync_flags\<close>, \<^verbatim>\<open>poll_events\<close>,
    \<^verbatim>\<open>msg_flags\<close>, \<^verbatim>\<open>timeout_flags\<close>, \<^verbatim>\<open>accept_flags\<close>, \<^verbatim>\<open>cancel_flags\<close>,
    \<^verbatim>\<open>open_flags\<close>, \<^verbatim>\<open>statx_flags\<close>, \<^verbatim>\<open>fadvise_advice\<close>, \<^verbatim>\<open>splice_flags\<close>) are one
    32-bit cell, \<open>sqe_rw_flags\<close>; this is why the single store \<^verbatim>\<open>sqe->rw_flags = 0\<close> of
    \<^verbatim>\<open>io_uring_prep_rw\<close> zeroes them all. \<^verbatim>\<open>poll_events\<close> is 16 bits wide and is the
    low half of the cell;
  \<^item> \<^verbatim>\<open>splice_off_in\<close> is the cell of \<^verbatim>\<open>addr\<close>;
  \<^item> \<^verbatim>\<open>buf_index\<close> and \<^verbatim>\<open>buf_group\<close> are one 16-bit cell, \<open>sqe_buf_index\<close>;
  \<^item> \<^verbatim>\<open>__pad2[0]\<close> covers \<^verbatim>\<open>buf_index\<close>, \<^verbatim>\<open>personality\<close> and \<^verbatim>\<open>splice_fd_in\<close>, so that
    storing 0 to it stores 0 to the three; \<^verbatim>\<open>__pad2[1]\<close> and \<^verbatim>\<open>__pad2[2]\<close> are cells of
    their own.
\<close>

record io_uring_sqe =
  sqe_opcode :: io_uring_op
  sqe_flags :: "8 word"
  sqe_ioprio :: "16 word"
  sqe_fd :: "32 word"
  sqe_off :: "64 word"
  sqe_addr :: "64 word"
  sqe_len :: "32 word"
  sqe_rw_flags :: "32 word"
  sqe_user_data :: "64 word"
  sqe_buf_index :: "16 word"
  sqe_personality :: "16 word"
  sqe_splice_fd_in :: "32 word"
  sqe_pad2_1 :: "64 word"
  sqe_pad2_2 :: "64 word"

subsection \<open>Completion entries and the rings\<close>

text \<open>
  Modelled from the spec: \<^verbatim>\<open>struct io_uring_cqe\<close> is declared in
  \<^verbatim>\<open>liburing/io_uring.h\<close>, which is not among the sources. The spec gives it a
  user-data token (64 bits), a 32-bit signed result and flags.
\<close>

record io_uring_cqe =
  cqe_user_data :: "64 word"
  cqe_res :: "32 word"
  cqe_flags :: "32 word"

text \<open>
  \<^verbatim>\<open>struct io_uring_cq\<close> holds pointers into the memory shared with the kernel. The
  record holds, for each pointer field, the value stored in the cell it points to; the
  cells are distinct locations of the mapping. \<^verbatim>\<open>cqes\<close> points to an array, read as
  \<^verbatim>\<open>cqes[i]\<close> for an unsigned index \<open>i\<close>: it is the memory behind the pointer, a function
  from the index to the entry stored there. A pointer \<^verbatim>\<open>&cqes[i]\<close> is the index \<open>i\<close>,
  and \<^verbatim>\<open>NULL\<close> is \<open>None\<close>.
\<close>

type_synonym cqe_ptr = "32 word option"

record io_uring_cq =
  cq_khead :: "32 word"
  cq_ktail :: "32 word"
  cq_kring_mask :: "32 word"
  cq_kring_entries :: "32 word"
  cq_koverflow :: "32 word"
  cq_cqes :: "32 word \<Rightarrow> io_uring_cqe"
  cq_ring_sz :: "64 word"
  cq_ring_ptr :: "64 word"

text \<open>\<^verbatim>\<open>struct io_uring_sq\<close> and \<^verbatim>\<open>struct io_uring\<close>, in the same way.\<close>

record io_uring_sq =
  sq_khead :: "32 word"
  sq_ktail :: "32 word"
  sq_kring_mask :: "32 word"
  sq_kring_entries :: "32 word"
  sq_kflags :: "32 word"
  sq_kdropped :: "32 word"
  sq_array :: "32 word \<Rightarrow> 32 word"
  sq_sqes :: "32 word \<Rightarrow> io_uring_sqe"
  sq_sqe_head :: "32 word"
  sq_sqe_tail :: "32 word"
  sq_ring_sz :: "64 word"
  sq_ring_ptr :: "64 word"

record io_uring =
  sq :: io_uring_sq
  cq :: io_uring_cq
  ring_flags :: "32 word"
  ring_fd :: "32 word"

subsection \<open>Observing and retiring completions\<close>

text \<open>
  \<^verbatim>\<open>io_uring_cq_advance(ring, nr)\<close>: if \<^verbatim>\<open>nr\<close> is not zero, store
  \<^verbatim>\<open>*cq->khead + nr\<close> to \<^verbatim>\<open>cq->khead\<close> (a release store).
\<close>

definition io_uring_cq_advance :: "io_uring \<Rightarrow> 32 word \<Rightarrow> io_uring" where
  "io_uring_cq_advance ring nr =
     (if nr \<noteq> 0
      then ring\<lparr>cq := (cq ring)\<lparr>cq_khead := cq_khead (cq ring) + nr\<rparr>\<rparr>
      else ring)"

text \<open>\<^verbatim>\<open>io_uring_cqe_seen(ring, cqe)\<close>: if \<^verbatim>\<open>cqe\<close> is not null, advance by one.\<close>

definition io_uring_cqe_seen :: "io_uring \<Rightarrow> cqe_ptr \<Rightarrow> io_uring" where
  "io_uring_cqe_seen ring cqe =
     (if cqe \<noteq> None then io_uring_cq_advance ring 1 else ring)"

text \<open>
  \<^verbatim>\<open>io_uring_cq_ready(ring)\<close>: the (acquire) load of \<^verbatim>\<open>*cq.ktail\<close> minus
  \<^verbatim>\<open>*cq.khead\<close>, in \<^verbatim>\<open>unsigned\<close> arithmetic. The function only reads the ring.
\<close>

definition io_uring_cq_ready :: "io_uring \<Rightarrow> 32 word" where
  "io_uring_cq_ready ring = cq_ktail (cq ring) - cq_khead (cq ring)"

subsection \<open>The iteration macro and the peek helper\<close>

text \<open>\<^verbatim>\<open>#define LIBURING_UDATA_TIMEOUT ((__u64) -1)\<close>\<close>

definition LIBURING_UDATA_TIMEOUT :: "64 word" where
  "LIBURING_UDATA_TIMEOUT = - 1"

text \<open>
  \<^verbatim>\<open>io_uring_for_each_cqe(ring, head, cqe)\<close> is the loop header
  \<^verbatim>\<open>for (head = *cq.khead; (cqe = (head != load_acquire(cq.ktail) ?
        &cq.cqes[head & *cq.kring_mask] : NULL)); head++)\<close>.
  \<open>for_each_cqe_cond\<close> is its controlling expression: the value assigned to
  \<^verbatim>\<open>cqe\<close>, the loop going on while it is not null.
\<close>

definition for_each_cqe_cond :: "io_uring \<Rightarrow> 32 word \<Rightarrow> cqe_ptr" where
  "for_each_cqe_cond ring head =
     (if head \<noteq> cq_ktail (cq ring)
      then Some (head AND cq_kring_mask (cq ring))
      else None)"

text \<open>
  The loop from a given value of \<^verbatim>\<open>head\<close>, with a body that neither leaves the loop
  nor changes the ring: the pointers assigned to \<^verbatim>\<open>cqe\<close> for the successive runs of
  the body. \<^verbatim>\<open>head++\<close> wraps around at \<open>2 ^ 32\<close>.
\<close>

function for_each_cqe_from :: "io_uring \<Rightarrow> 32 word \<Rightarrow> 32 word list" where
  "for_each_cqe_from ring head =
     (case for_each_cqe_cond ring head of
        None \<Rightarrow> []
      | Some cqe \<Rightarrow> cqe # for_each_cqe_from ring (head + 1))"
  by pat_completeness auto
termination
proof (relation "measure (\<lambda>(ring, head). unat (cq_ktail (cq ring) - head))")
  show "wf (measure (\<lambda>(ring, head). unat (cq_ktail (cq ring) - head)))"
    by simp
next
  fix ring :: io_uring and head :: "32 word" and x2 :: "32 word"
  assume "for_each_cqe_cond ring head = Some x2"
  then have ne: "cq_ktail (cq ring) - head \<noteq> 0"
    by (simp add: for_each_cqe_cond_def split: if_splits)
  from ne have "unat (cq_ktail (cq ring) - head - 1) = unat (cq_ktail (cq ring) - head) - 1"
    by (rule unat_minus_one)
  then have "unat (cq_ktail (cq ring) - (head + 1)) = unat (cq_ktail (cq ring) - head) - 1"
    by (simp add: diff_diff_eq)
  moreover from ne have "unat (cq_ktail (cq ring) - head) \<noteq> 0"
    by (simp add: unat_eq_0)
  ultimately show "((ring, head + 1), (ring, head))
      \<in> measure (\<lambda>(ring, head). unat (cq_ktail (cq ring) - head))"
    by simp
qed

definition io_uring_for_each_cqe :: "io_uring \<Rightarrow> 32 word list" where
  "io_uring_for_each_cqe ring = for_each_cqe_from ring (cq_khead (cq ring))"

text \<open>
  \<^verbatim>\<open>__io_uring_peek_cqe(ring, cqe_ptr)\<close>. The result is the returned \<^verbatim>\<open>int\<close>, the
  pointer stored to \<^verbatim>\<open>*cqe_ptr\<close>, and the ring. \<open>peek_cqe_loop\<close> is one run of the body
  of the \<^verbatim>\<open>do ... while (1)\<close> loop, with the current value of \<^verbatim>\<open>err\<close>:
  \<^item> \<^verbatim>\<open>io_uring_for_each_cqe(ring, head, cqe) break;\<close> leaves in \<^verbatim>\<open>cqe\<close> the first value
    of the controlling expression, at \<^verbatim>\<open>head = *cq.khead\<close>;
  \<^item> if \<^verbatim>\<open>cqe\<close> is not null and its user data is the timeout value: \<^verbatim>\<open>err\<close> becomes
    \<^verbatim>\<open>cqe->res\<close> if that is negative, the head advances by one, and the loop is run
    again (\<^verbatim>\<open>continue\<close>) if \<^verbatim>\<open>err\<close> is zero; otherwise \<^verbatim>\<open>cqe\<close> becomes null;
  \<^item> \<^verbatim>\<open>break\<close> ends the loop, and \<^verbatim>\<open>cqe\<close> and \<^verbatim>\<open>err\<close> are the results.
\<close>

function peek_cqe_loop :: "io_uring \<Rightarrow> 32 word \<Rightarrow> 32 word \<times> cqe_ptr \<times> io_uring" where
  "peek_cqe_loop ring err =
     (case for_each_cqe_cond ring (cq_khead (cq ring)) of
        None \<Rightarrow> (err, None, ring)
      | Some cqe \<Rightarrow>
          if cqe_user_data (cq_cqes (cq ring) cqe) = LIBURING_UDATA_TIMEOUT
          then
            (let err' = (if sint (cqe_res (cq_cqes (cq ring) cqe)) < 0
                         then cqe_res (cq_cqes (cq ring) cqe) else err);
                 ring' = io_uring_cq_advance ring 1
             in if err' = 0 then peek_cqe_loop ring' err' else (err', None, ring'))
          else (err, Some cqe, ring))"
  by pat_completeness auto
termination
proof (relation "measure (\<lambda>(ring, err). unat (cq_ktail (cq ring) - cq_khead (cq ring)))")
  show "wf (measure (\<lambda>(ring, err). unat (cq_ktail (cq ring) - cq_khead (cq ring))))"
    by simp
next
  fix ring :: io_uring and err :: "32 word" and x2 :: "32 word"
    and x :: "32 word" and xa :: io_uring
  assume c: "for_each_cqe_cond ring (cq_khead (cq ring)) = Some x2"
    and r: "xa = io_uring_cq_advance ring 1"
  from c have ne: "cq_ktail (cq ring) - cq_khead (cq ring) \<noteq> 0"
    by (simp add: for_each_cqe_cond_def split: if_splits)
  have t: "cq_ktail (cq xa) = cq_ktail (cq ring)"
    and h: "cq_khead (cq xa) = cq_khead (cq ring) + 1"
    using r by (simp_all add: io_uring_cq_advance_def)
  from ne have "unat (cq_ktail (cq ring) - cq_khead (cq ring) - 1)
      = unat (cq_ktail (cq ring) - cq_khead (cq ring)) - 1"
    by (rule unat_minus_one)
  then have "unat (cq_ktail (cq ring) - (cq_khead (cq ring) + 1))
      = unat (cq_ktail (cq ring) - cq_khead (cq ring)) - 1"
    by (simp add: diff_diff_eq)
  moreover from ne have "unat (cq_ktail (cq ring) - cq_khead (cq ring)) \<noteq> 0"
    by (simp add: unat_eq_0)
  ultimately show "((xa, x), (ring, err))
      \<in> measure (\<lambda>(ring, err). unat (cq_ktail (cq ring) - cq_khead (cq ring)))"
    by (simp add: t h)
qed

definition uu_io_uring_peek_cqe :: "io_uring \<Rightarrow> 32 word \<times> cqe_ptr \<times> io_uring" where
  "uu_io_uring_peek_cqe ring = peek_cqe_loop ring 0"

text \<open>
  \<^verbatim>\<open>io_uring_wait_cqe_nr(ring, cqe_ptr, wait_nr)\<close>. The helper
  \<^verbatim>\<open>__io_uring_get_cqe(ring, cqe_ptr, submit, wait_nr, sigmask)\<close> is declared
  \<^verbatim>\<open>extern\<close> in the header and defined elsewhere: it is the parameter \<open>get_cqe\<close>, a
  function of the ring, \<^verbatim>\<open>submit\<close>, \<^verbatim>\<open>wait_nr\<close> and the signal mask (\<open>None\<close> for a null
  pointer) to the returned \<^verbatim>\<open>int\<close>, the pointer it stores to \<^verbatim>\<open>*cqe_ptr\<close> and the ring.
\<close>

type_synonym 'sig get_cqe_fn =
  "io_uring \<Rightarrow> 32 word \<Rightarrow> 32 word \<Rightarrow> 'sig option \<Rightarrow> 32 word \<times> cqe_ptr \<times> io_uring"

definition io_uring_wait_cqe_nr ::
  "'sig get_cqe_fn \<Rightarrow> io_uring \<Rightarrow> 32 word \<Rightarrow> 32 word \<times> cqe_ptr \<times> io_uring" where
  "io_uring_wait_cqe_nr get_cqe ring wait_nr =
     (case uu_io_uring_peek_cqe ring of
        (err, cqe, ring') \<Rightarrow>
          if err \<noteq> 0 \<or> cqe \<noteq> None then (err, cqe, ring')
          else get_cqe ring' 0 wait_nr None)"


subsection \<open>Preparing submission entries\<close>

text \<open>
  A conversion between two C types of the same width keeps the bits and is not written.
  A conversion that changes the width is written: \<open>ucast\<close> extends an unsigned value
  with zeros or truncates, \<open>scast\<close> extends a signed value with its sign.
\<close>

text \<open>\<^verbatim>\<open>io_uring_sqe_set_data(sqe, data)\<close>: \<^verbatim>\<open>sqe->user_data = (unsigned long) data\<close>.\<close>

definition io_uring_sqe_set_data :: "io_uring_sqe \<Rightarrow> 64 word \<Rightarrow> io_uring_sqe" where
  "io_uring_sqe_set_data sqe data = sqe\<lparr>sqe_user_data := data\<rparr>"

text \<open>\<^verbatim>\<open>io_uring_cqe_get_data(cqe)\<close>: \<^verbatim>\<open>return (void *) (uintptr_t) cqe->user_data\<close>.\<close>

definition io_uring_cqe_get_data :: "io_uring_cqe \<Rightarrow> 64 word" where
  "io_uring_cqe_get_data cqe = cqe_user_data cqe"

text \<open>\<^verbatim>\<open>io_uring_sqe_set_flags(sqe, flags)\<close>: \<^verbatim>\<open>sqe->flags = flags\<close>, an 8-bit field.\<close>

definition io_uring_sqe_set_flags :: "io_uring_sqe \<Rightarrow> 32 word \<Rightarrow> io_uring_sqe" where
  "io_uring_sqe_set_flags sqe fl = sqe\<lparr>sqe_flags := ucast fl\<rparr>"

text \<open>
  \<^verbatim>\<open>io_uring_prep_rw(op, sqe, fd, addr, len, offset)\<close>, store by store. The last
  statement, \<^verbatim>\<open>sqe->__pad2[0] = sqe->__pad2[1] = sqe->__pad2[2] = 0\<close>, stores 0 to the
  three padding words; the first of them covers \<^verbatim>\<open>buf_index\<close>, \<^verbatim>\<open>personality\<close> and
  \<^verbatim>\<open>splice_fd_in\<close>.
\<close>

definition io_uring_prep_rw ::
  "io_uring_op \<Rightarrow> io_uring_sqe \<Rightarrow> 32 word \<Rightarrow> 64 word \<Rightarrow> 32 word \<Rightarrow> 64 word \<Rightarrow> io_uring_sqe" where
  "io_uring_prep_rw op sqe fd addr len offset =
     sqe\<lparr>sqe_opcode := op,
         sqe_flags := 0,
         sqe_ioprio := 0,
         sqe_fd := fd,
         sqe_off := offset,
         sqe_addr := addr,
         sqe_len := len,
         sqe_rw_flags := 0,
         sqe_user_data := 0,
         sqe_pad2_2 := 0,
         sqe_pad2_1 := 0,
         sqe_buf_index := 0,
         sqe_personality := 0,
         sqe_splice_fd_in := 0\<rparr>"

text \<open>
  Reading and writing the members that share a cell. A 32-bit member of the union of
  per-opcode flags is the whole cell; \<^verbatim>\<open>poll_events\<close> is its low 16 bits, and a store to
  it keeps the high 16 bits.
\<close>

definition sqe_fsync_flags :: "io_uring_sqe \<Rightarrow> 32 word" where
  "sqe_fsync_flags sqe = sqe_rw_flags sqe"

definition sqe_poll_events :: "io_uring_sqe \<Rightarrow> 16 word" where
  "sqe_poll_events sqe = ucast (sqe_rw_flags sqe)"

definition sqe_msg_flags :: "io_uring_sqe \<Rightarrow> 32 word" where
  "sqe_msg_flags sqe = sqe_rw_flags sqe"

definition sqe_timeout_flags :: "io_uring_sqe \<Rightarrow> 32 word" where
  "sqe_timeout_flags sqe = sqe_rw_flags sqe"

definition sqe_accept_flags :: "io_uring_sqe \<Rightarrow> 32 word" where
  "sqe_accept_flags sqe = sqe_rw_flags sqe"

definition sqe_cancel_flags :: "io_uring_sqe \<Rightarrow> 32 word" where
  "sqe_cancel_flags sqe = sqe_rw_flags sqe"

definition sqe_open_flags :: "io_uring_sqe \<Rightarrow> 32 word" where
  "sqe_open_flags sqe = sqe_rw_flags sqe"

definition sqe_statx_flags :: "io_uring_sqe \<Rightarrow> 32 word" where
  "sqe_statx_flags sqe = sqe_rw_flags sqe"

definition sqe_fadvise_advice :: "io_uring_sqe \<Rightarrow> 32 word" where
  "sqe_fadvise_advice sqe = sqe_rw_flags sqe"

definition sqe_splice_flags :: "io_uring_sqe \<Rightarrow> 32 word" where
  "sqe_splice_flags sqe = sqe_rw_flags sqe"

definition sqe_splice_off_in :: "io_uring_sqe \<Rightarrow> 64 word" where
  "sqe_splice_off_in sqe = sqe_addr sqe"

definition sqe_buf_group :: "io_uring_sqe \<Rightarrow> 16 word" where
  "sqe_buf_group sqe = sqe_buf_index sqe"

definition upd_fsync_flags :: "32 word \<Rightarrow> io_uring_sqe \<Rightarrow> io_uring_sqe" where
  "upd_fsync_flags v sqe = sqe\<lparr>sqe_rw_flags := v\<rparr>"

definition upd_poll_events :: "16 word \<Rightarrow> io_uring_sqe \<Rightarrow> io_uring_sqe" where
  "upd_poll_events v sqe =
     sqe\<lparr>sqe_rw_flags := (sqe_rw_flags sqe AND NOT (mask 16)) OR ucast v\<rparr>"

definition upd_msg_flags :: "32 word \<Rightarrow> io_uring_sqe \<Rightarrow> io_uring_sqe" where
  "upd_msg_flags v sqe = sqe\<lparr>sqe_rw_flags := v\<rparr>"

definition upd_timeout_flags :: "32 word \<Rightarrow> io_uring_sqe \<Rightarrow> io_uring_sqe" where
  "upd_timeout_flags v sqe = sqe\<lparr>sqe_rw_flags := v\<rparr>"

definition upd_accept_flags :: "32 word \<Rightarrow> io_uring_sqe \<Rightarrow> io_uring_sqe" where
  "upd_accept_flags v sqe = sqe\<lparr>sqe_rw_flags := v\<rparr>"

definition upd_cancel_flags :: "32 word \<Rightarrow> io_uring_sqe \<Rightarrow> io_uring_sqe" where
  "upd_cancel_flags v sqe = sqe\<lparr>sqe_rw_flags := v\<rparr>"

definition upd_open_flags :: "32 word \<Rightarrow> io_uring_sqe \<Rightarrow> io_uring_sqe" where
  "upd_open_flags v sqe = sqe\<lparr>sqe_rw_flags := v\<rparr>"

definition upd_statx_flags :: "32 word \<Rightarrow> io_uring_sqe \<Rightarrow> io_uring_sqe" where
  "upd_statx_flags v sqe = sqe\<lparr>sqe_rw_flags := v\<rparr>"

definition upd_fadvise_advice :: "32 word \<Rightarrow> io_uring_sqe \<Rightarrow> io_uring_sqe" where
  "upd_fadvise_advice v sqe = sqe\<lparr>sqe_rw_flags := v\<rparr>"

definition upd_splice_flags :: "32 word \<Rightarrow> io_uring_sqe \<Rightarrow> io_uring_sqe" where
  "upd_splice_flags v sqe = sqe\<lparr>sqe_rw_flags := v\<rparr>"

definition upd_splice_off_in :: "64 word \<Rightarrow> io_uring_sqe \<Rightarrow> io_uring_sqe" where
  "upd_splice_off_in v sqe = sqe\<lparr>sqe_addr := v\<rparr>"

definition upd_splice_fd_in :: "32 word \<Rightarrow> io_uring_sqe \<Rightarrow> io_uring_sqe" where
  "upd_splice_fd_in v sqe = sqe\<lparr>sqe_splice_fd_in := v\<rparr>"

definition upd_buf_index :: "16 word \<Rightarrow> io_uring_sqe \<Rightarrow> io_uring_sqe" where
  "upd_buf_index v sqe = sqe\<lparr>sqe_buf_index := v\<rparr>"

definition upd_buf_group :: "16 word \<Rightarrow> io_uring_sqe \<Rightarrow> io_uring_sqe" where
  "upd_buf_group v sqe = sqe\<lparr>sqe_buf_index := v\<rparr>"

text \<open>
  The preparation functions, in the order of the header. Each is the call of
  \<^verbatim>\<open>io_uring_prep_rw\<close> of its body followed by the stores of its body, in order.
\<close>

definition io_uring_prep_splice ::
  "io_uring_sqe \<Rightarrow> 32 word \<Rightarrow> 64 word \<Rightarrow> 32 word \<Rightarrow> 64 word \<Rightarrow> 32 word \<Rightarrow> 32 word \<Rightarrow> io_uring_sqe" where
  "io_uring_prep_splice sqe fd_in off_in fd_out off_out nbytes splice_flags =
     upd_splice_flags splice_flags
       (upd_splice_fd_in fd_in
         (upd_splice_off_in off_in
           (io_uring_prep_rw IORING_OP_SPLICE sqe fd_out 0 nbytes off_out)))"

definition io_uring_prep_readv ::
  "io_uring_sqe \<Rightarrow> 32 word \<Rightarrow> 64 word \<Rightarrow> 32 word \<Rightarrow> 64 word \<Rightarrow> io_uring_sqe" where
  "io_uring_prep_readv sqe fd iovecs nr_vecs offset =
     io_uring_prep_rw IORING_OP_READV sqe fd iovecs nr_vecs offset"

definition io_uring_prep_read_fixed ::
  "io_uring_sqe \<Rightarrow> 32 word \<Rightarrow> 64 word \<Rightarrow> 32 word \<Rightarrow> 64 word \<Rightarrow> 32 word \<Rightarrow> io_uring_sqe" where
  "io_uring_prep_read_fixed sqe fd buf nbytes offset buf_index =
     upd_buf_index (ucast buf_index)
       (io_uring_prep_rw IORING_OP_READ_FIXED sqe fd buf nbytes offset)"

definition io_uring_prep_writev ::
  "io_uring_sqe \<Rightarrow> 32 word \<Rightarrow> 64 word \<Rightarrow> 32 word \<Rightarrow> 64 word \<Rightarrow> io_uring_sqe" where
  "io_uring_prep_writev sqe fd iovecs nr_vecs offset =
     io_uring_prep_rw IORING_OP_WRITEV sqe fd iovecs nr_vecs offset"

definition io_uring_prep_write_fixed ::
  "io_uring_sqe \<Rightarrow> 32 word \<Rightarrow> 64 word \<Rightarrow> 32 word \<Rightarrow> 64 word \<Rightarrow> 32 word \<Rightarrow> io_uring_sqe" where
  "io_uring_prep_write_fixed sqe fd buf nbytes offset buf_index =
     upd_buf_index (ucast buf_index)
       (io_uring_prep_rw IORING_OP_WRITE_FIXED sqe fd buf nbytes offset)"

definition io_uring_prep_recvmsg ::
  "io_uring_sqe \<Rightarrow> 32 word \<Rightarrow> 64 word \<Rightarrow> 32 word \<Rightarrow> io_uring_sqe" where
  "io_uring_prep_recvmsg sqe fd msg fl =
     upd_msg_flags fl (io_uring_prep_rw IORING_OP_RECVMSG sqe fd msg 1 0)"

definition io_uring_prep_sendmsg ::
  "io_uring_sqe \<Rightarrow> 32 word \<Rightarrow> 64 word \<Rightarrow> 32 word \<Rightarrow> io_uring_sqe" where
  "io_uring_prep_sendmsg sqe fd msg fl =
     upd_msg_flags fl (io_uring_prep_rw IORING_OP_SENDMSG sqe fd msg 1 0)"

definition io_uring_prep_poll_add ::
  "io_uring_sqe \<Rightarrow> 32 word \<Rightarrow> 16 word \<Rightarrow> io_uring_sqe" where
  "io_uring_prep_poll_add sqe fd poll_mask =
     upd_poll_events poll_mask (io_uring_prep_rw IORING_OP_POLL_ADD sqe fd 0 0 0)"

definition io_uring_prep_poll_remove :: "io_uring_sqe \<Rightarrow> 64 word \<Rightarrow> io_uring_sqe" where
  "io_uring_prep_poll_remove sqe user_data =
     io_uring_prep_rw IORING_OP_POLL_REMOVE sqe (- 1) user_data 0 0"

definition io_uring_prep_fsync :: "io_uring_sqe \<Rightarrow> 32 word \<Rightarrow> 32 word \<Rightarrow> io_uring_sqe" where
  "io_uring_prep_fsync sqe fd fsync_flags =
     upd_fsync_flags fsync_flags (io_uring_prep_rw IORING_OP_FSYNC sqe fd 0 0 0)"

definition io_uring_prep_nop :: "io_uring_sqe \<Rightarrow> io_uring_sqe" where
  "io_uring_prep_nop sqe = io_uring_prep_rw IORING_OP_NOP sqe (- 1) 0 0 0"

definition io_uring_prep_timeout ::
  "io_uring_sqe \<Rightarrow> 64 word \<Rightarrow> 32 word \<Rightarrow> 32 word \<Rightarrow> io_uring_sqe" where
  "io_uring_prep_timeout sqe ts cnt fl =
     upd_timeout_flags fl (io_uring_prep_rw IORING_OP_TIMEOUT sqe (- 1) ts 1 (ucast cnt))"

definition io_uring_prep_timeout_remove ::
  "io_uring_sqe \<Rightarrow> 64 word \<Rightarrow> 32 word \<Rightarrow> io_uring_sqe" where
  "io_uring_prep_timeout_remove sqe user_data fl =
     upd_timeout_flags fl (io_uring_prep_rw IORING_OP_TIMEOUT_REMOVE sqe (- 1) user_data 0 0)"

definition io_uring_prep_accept ::
  "io_uring_sqe \<Rightarrow> 32 word \<Rightarrow> 64 word \<Rightarrow> 64 word \<Rightarrow> 32 word \<Rightarrow> io_uring_sqe" where
  "io_uring_prep_accept sqe fd addr addrlen fl =
     upd_accept_flags fl (io_uring_prep_rw IORING_OP_ACCEPT sqe fd addr 0 addrlen)"

definition io_uring_prep_cancel :: "io_uring_sqe \<Rightarrow> 64 word \<Rightarrow> 32 word \<Rightarrow> io_uring_sqe" where
  "io_uring_prep_cancel sqe user_data fl =
     upd_cancel_flags fl (io_uring_prep_rw IORING_OP_ASYNC_CANCEL sqe (- 1) user_data 0 0)"

definition io_uring_prep_link_timeout ::
  "io_uring_sqe \<Rightarrow> 64 word \<Rightarrow> 32 word \<Rightarrow> io_uring_sqe" where
  "io_uring_prep_link_timeout sqe ts fl =
     upd_timeout_flags fl (io_uring_prep_rw IORING_OP_LINK_TIMEOUT sqe (- 1) ts 1 0)"

definition io_uring_prep_connect ::
  "io_uring_sqe \<Rightarrow> 32 word \<Rightarrow> 64 word \<Rightarrow> 32 word \<Rightarrow> io_uring_sqe" where
  "io_uring_prep_connect sqe fd addr addrlen =
     io_uring_prep_rw IORING_OP_CONNECT sqe fd addr 0 (ucast addrlen)"

definition io_uring_prep_files_update ::
  "io_uring_sqe \<Rightarrow> 64 word \<Rightarrow> 32 word \<Rightarrow> 32 word \<Rightarrow> io_uring_sqe" where
  "io_uring_prep_files_update sqe fds nr_fds offset =
     io_uring_prep_rw IORING_OP_FILES_UPDATE sqe (- 1) fds nr_fds (scast offset)"

definition io_uring_prep_fallocate ::
  "io_uring_sqe \<Rightarrow> 32 word \<Rightarrow> 32 word \<Rightarrow> 64 word \<Rightarrow> 64 word \<Rightarrow> io_uring_sqe" where
  "io_uring_prep_fallocate sqe fd mode offset len =
     io_uring_prep_rw IORING_OP_FALLOCATE sqe fd len mode offset"

definition io_uring_prep_openat ::
  "io_uring_sqe \<Rightarrow> 32 word \<Rightarrow> 64 word \<Rightarrow> 32 word \<Rightarrow> 32 word \<Rightarrow> io_uring_sqe" where
  "io_uring_prep_openat sqe dfd path fl mode =
     upd_open_flags fl (io_uring_prep_rw IORING_OP_OPENAT sqe dfd path mode 0)"

definition io_uring_prep_close :: "io_uring_sqe \<Rightarrow> 32 word \<Rightarrow> io_uring_sqe" where
  "io_uring_prep_close sqe fd = io_uring_prep_rw IORING_OP_CLOSE sqe fd 0 0 0"

definition io_uring_prep_read ::
  "io_uring_sqe \<Rightarrow> 32 word \<Rightarrow> 64 word \<Rightarrow> 32 word \<Rightarrow> 64 word \<Rightarrow> io_uring_sqe" where
  "io_uring_prep_read sqe fd buf nbytes offset =
     io_uring_prep_rw IORING_OP_READ sqe fd buf nbytes offset"

definition io_uring_prep_write ::
  "io_uring_sqe \<Rightarrow> 32 word \<Rightarrow> 64 word \<Rightarrow> 32 word \<Rightarrow> 64 word \<Rightarrow> io_uring_sqe" where
  "io_uring_prep_write sqe fd buf nbytes offset =
     io_uring_prep_rw IORING_OP_WRITE sqe fd buf nbytes offset"

definition io_uring_prep_statx ::
  "io_uring_sqe \<Rightarrow> 32 word \<Rightarrow> 64 word \<Rightarrow> 32 word \<Rightarrow> 32 word \<Rightarrow> 64 word \<Rightarrow> io_uring_sqe" where
  "io_uring_prep_statx sqe dfd path fl msk statxbuf =
     upd_statx_flags fl (io_uring_prep_rw IORING_OP_STATX sqe dfd path msk statxbuf)"

definition io_uring_prep_fadvise ::
  "io_uring_sqe \<Rightarrow> 32 word \<Rightarrow> 64 word \<Rightarrow> 64 word \<Rightarrow> 32 word \<Rightarrow> io_uring_sqe" where
  "io_uring_prep_fadvise sqe fd offset len advice =
     upd_fadvise_advice advice (io_uring_prep_rw IORING_OP_FADVISE sqe fd 0 (ucast len) offset)"

definition io_uring_prep_madvise ::
  "io_uring_sqe \<Rightarrow> 64 word \<Rightarrow> 64 word \<Rightarrow> 32 word \<Rightarrow> io_uring_sqe" where
  "io_uring_prep_madvise sqe addr len advice =
     upd_fadvise_advice advice
       (io_uring_prep_rw IORING_OP_MADVISE sqe (- 1) addr (ucast len) 0)"

definition io_uring_prep_send ::
  "io_uring_sqe \<Rightarrow> 32 word \<Rightarrow> 64 word \<Rightarrow> 64 word \<Rightarrow> 32 word \<Rightarrow> io_uring_sqe" where
  "io_uring_prep_send sqe sockfd buf len fl =
     upd_msg_flags fl (io_uring_prep_rw IORING_OP_SEND sqe sockfd buf (ucast len) 0)"

definition io_uring_prep_recv ::
  "io_uring_sqe \<Rightarrow> 32 word \<Rightarrow> 64 word \<Rightarrow> 64 word \<Rightarrow> 32 word \<Rightarrow> io_uring_sqe" where
  "io_uring_prep_recv sqe sockfd buf len fl =
     upd_msg_flags fl (io_uring_prep_rw IORING_OP_RECV sqe sockfd buf (ucast len) 0)"

text \<open>
  \<^verbatim>\<open>io_uring_prep_openat2\<close> passes \<^verbatim>\<open>sizeof(*how)\<close> as the length; \<^verbatim>\<open>struct open_how\<close>
  is declared outside the header, and its size is the parameter \<open>sizeof_how\<close>.
\<close>

definition io_uring_prep_openat2 ::
  "32 word \<Rightarrow> io_uring_sqe \<Rightarrow> 32 word \<Rightarrow> 64 word \<Rightarrow> 64 word \<Rightarrow> io_uring_sqe" where
  "io_uring_prep_openat2 sizeof_how sqe dfd path how =
     io_uring_prep_rw IORING_OP_OPENAT2 sqe dfd path sizeof_how how"

definition io_uring_prep_epoll_ctl ::
  "io_uring_sqe \<Rightarrow> 32 word \<Rightarrow> 32 word \<Rightarrow> 32 word \<Rightarrow> 64 word \<Rightarrow> io_uring_sqe" where
  "io_uring_prep_epoll_ctl sqe epfd fd op ev =
     io_uring_prep_rw IORING_OP_EPOLL_CTL sqe epfd ev op (scast fd)"

definition io_uring_prep_provide_buffers ::
  "io_uring_sqe \<Rightarrow> 64 word \<Rightarrow> 32 word \<Rightarrow> 32 word \<Rightarrow> 32 word \<Rightarrow> 32 word \<Rightarrow> io_uring_sqe" where
  "io_uring_prep_provide_buffers sqe addr len nr bgid bid =
     upd_buf_group (ucast bgid)
       (io_uring_prep_rw IORING_OP_PROVIDE_BUFFERS sqe nr addr len (scast bid))"

definition io_uring_prep_remove_buffers ::
  "io_uring_sqe \<Rightarrow> 32 word \<Rightarrow> 32 word \<Rightarrow> io_uring_sqe" where
  "io_uring_prep_remove_buffers sqe nr bgid =
     upd_buf_group (ucast bgid) (io_uring_prep_rw IORING_OP_REMOVE_BUFFERS sqe nr 0 0 0)"

subsection \<open>The probe\<close>

text \<open>
  Modelled from the spec: \<^verbatim>\<open>struct io_uring_probe\<close>, \<^verbatim>\<open>struct io_uring_probe_op\<close> and
  \<^verbatim>\<open>IO_URING_OP_SUPPORTED\<close> are declared in \<^verbatim>\<open>liburing/io_uring.h\<close>, which is not
  among the sources. The spec describes the probe as \<^verbatim>\<open>last_op\<close> and a vector of
  per-opcode records, each bearing a "supported" bit in its flags. The widths
  (\<^verbatim>\<open>last_op\<close> an unsigned 8-bit field, the flags 16 bits wide) and the position of
  the bit (bit 0) are those of the kernel interface; the property proved below holds for
  any position of the bit.
\<close>

record io_uring_probe_op =
  probe_op_flags :: "16 word"

record io_uring_probe =
  probe_last_op :: "8 word"
  probe_ops :: "io_uring_probe_op list"

definition IO_URING_OP_SUPPORTED :: "16 word" where
  "IO_URING_OP_SUPPORTED = 1"

text \<open>
  \<^verbatim>\<open>io_uring_opcode_supported(p, op)\<close>, with \<^verbatim>\<open>int op\<close>. The comparison
  \<^verbatim>\<open>op > p->last_op\<close> is a comparison of \<^verbatim>\<open>int\<close>s. The function does not check
  \<^verbatim>\<open>op\<close> against the table before it reads \<^verbatim>\<open>p->ops[op]\<close>; a read outside the table
  has no defined result in C, and the model returns \<open>None\<close> there.
\<close>

definition io_uring_opcode_supported :: "io_uring_probe \<Rightarrow> 32 word \<Rightarrow> 32 word option" where
  "io_uring_opcode_supported p op =
     (if sint op > uint (probe_last_op p) then Some 0
      else if 0 \<le> sint op \<and> nat (sint op) < length (probe_ops p)
      then Some (if probe_op_flags (probe_ops p ! nat (sint op)) AND IO_URING_OP_SUPPORTED \<noteq> 0
                 then 1 else 0)
      else None)"

subsection \<open>Comparing two entries\<close>

text \<open>
  \<open>same_but_op_flags a b\<close>: the entry \<open>b\<close> is the entry \<open>a\<close> in every cell other than the
  cell of the per-opcode flags. \<open>same_but_buf_index a b\<close>: likewise, for the cell of
  \<^verbatim>\<open>buf_index\<close> and \<^verbatim>\<open>buf_group\<close>.
\<close>

definition same_but_op_flags :: "io_uring_sqe \<Rightarrow> io_uring_sqe \<Rightarrow> bool" where
  "same_but_op_flags a b \<longleftrightarrow> b = a\<lparr>sqe_rw_flags := sqe_rw_flags b\<rparr>"

definition same_but_buf_index :: "io_uring_sqe \<Rightarrow> io_uring_sqe \<Rightarrow> bool" where
  "same_but_buf_index a b \<longleftrightarrow> b = a\<lparr>sqe_buf_index := sqe_buf_index b\<rparr>"

subsection \<open>Example states\<close>

text \<open>
  A completion ring of four entries with three completions posted: two timeout
  completions of the library (the second with result \<open>-62\<close>) and one completion of the
  application with user data \<open>0x4242\<close>.
\<close>

definition example_cqes :: "32 word \<Rightarrow> io_uring_cqe" where
  "example_cqes i =
     (if i = 0 then \<lparr>cqe_user_data = - 1, cqe_res = 0, cqe_flags = 0\<rparr>
      else if i = 1 then \<lparr>cqe_user_data = - 1, cqe_res = - 62, cqe_flags = 0\<rparr>
      else \<lparr>cqe_user_data = 0x4242, cqe_res = 0, cqe_flags = 0\<rparr>)"

definition example_sqe :: io_uring_sqe where
  "example_sqe = \<lparr>sqe_opcode = IORING_OP_READV, sqe_flags = 1, sqe_ioprio = 2, sqe_fd = 3,
     sqe_off = 4, sqe_addr = 5, sqe_len = 6, sqe_rw_flags = 7, sqe_user_data = 8,
     sqe_buf_index = 9, sqe_personality = 10, sqe_splice_fd_in = 11, sqe_pad2_1 = 12,
     sqe_pad2_2 = 13\<rparr>"

definition example_ring :: "32 word \<Rightarrow> io_uring" where
  "example_ring head =
     \<lparr>sq = \<lparr>sq_khead = 0, sq_ktail = 0, sq_kring_mask = 3, sq_kring_entries = 4,
             sq_kflags = 0, sq_kdropped = 0, sq_array = (\<lambda>i. i),
             sq_sqes = (\<lambda>i. example_sqe), sq_sqe_head = 0, sq_sqe_tail = 0,
             sq_ring_sz = 0, sq_ring_ptr = 0\<rparr>,
      cq = \<lparr>cq_khead = head, cq_ktail = 3, cq_kring_mask = 3, cq_kring_entries = 4,
             cq_koverflow = 0, cq_cqes = example_cqes, cq_ring_sz = 0, cq_ring_ptr = 0\<rparr>,
      ring_flags = 0, ring_fd = 3\<rparr>"

text \<open>A stand-in for the external helper, whose results show the arguments it was given.\<close>

definition example_get_cqe :: "unit get_cqe_fn" where
  "example_get_cqe ring submit wait_nr sigmask =
     (if sigmask = None then submit + wait_nr else - 1, Some 0, ring)"

text \<open>A probe of three opcodes, the second of them not supported.\<close>

definition example_probe :: io_uring_probe where
  "example_probe =
     \<lparr>probe_last_op = 2,
      probe_ops = [\<lparr>probe_op_flags = 1\<rparr>, \<lparr>probe_op_flags = 0\<rparr>, \<lparr>probe_op_flags = 1\<rparr>]\<rparr>"

section \<open>Properties\<close>

text \<open>
  The defining equations of the two loops are used one unfolding at a time.
\<close>

declare for_each_cqe_from.simps [simp del]
declare peek_cqe_loop.simps [simp del]

subsection \<open>The completion side\<close>

text \<open>
  C7. For every ring, \<open>io_uring_cq_ready\<close> returns the value loaded from the
  kernel-written \<open>cq.tail\<close> minus the current \<open>cq.head\<close>, the subtraction being that of
  unsigned 32-bit integers (it wraps around at \<open>2 ^ 32\<close>). The function returns only
  this number: it has no ring to give back, the ring it was given being only read.
\<close>

theorem cq_ready_is_tail_minus_head:
  "io_uring_cq_ready ring = cq_ktail (cq ring) - cq_khead (cq ring)
   \<and> uint (io_uring_cq_ready ring)
       = (uint (cq_ktail (cq ring)) - uint (cq_khead (cq ring))) mod 2 ^ 32"
  by (simp add: io_uring_cq_ready_def uint_word_ariths)

text \<open>
  C6. For every ring and every non-null CQE pointer, \<open>io_uring_cqe_seen\<close> stores
  \<open>cq.head + 1\<close> to the CQ head and changes no other field of the ring (the result is
  the ring with that one cell updated, which is also what \<open>io_uring_cq_advance\<close> with
  count 1 returns); with a null CQE pointer the ring is returned unchanged.
\<close>

theorem cqe_seen_advances_head_by_one:
  "(cqe \<noteq> None \<longrightarrow>
      io_uring_cqe_seen ring cqe = ring\<lparr>cq := (cq ring)\<lparr>cq_khead := cq_khead (cq ring) + 1\<rparr>\<rparr>
      \<and> io_uring_cqe_seen ring cqe = io_uring_cq_advance ring 1)
   \<and> (cqe = None \<longrightarrow> io_uring_cqe_seen ring cqe = ring)"
  by (simp add: io_uring_cqe_seen_def io_uring_cq_advance_def)

theorem cqe_seen_advances_head_by_one_witness:
  "io_uring_cqe_seen (example_ring 2) (Some 2) = example_ring 3
   \<and> io_uring_cqe_seen (example_ring 2) None = example_ring 2"
  using cqe_seen_advances_head_by_one [of "Some 2" "example_ring 2"]
    cqe_seen_advances_head_by_one [of None "example_ring 2"]
  by (simp add: example_ring_def)

text \<open>
  The loop of the iteration macro, from any value of \<open>head\<close>: it runs
  \<open>tail - head\<close> times (modulo \<open>2 ^ 32\<close>), and its \<open>k\<close>-th run has the entry at index
  \<open>(head + k) AND ring_mask\<close>.
\<close>

lemma for_each_cqe_from_eq:
  "for_each_cqe_from ring head =
     map (\<lambda>k. (head + of_nat k) AND cq_kring_mask (cq ring))
       [0..<unat (cq_ktail (cq ring) - head)]"
proof (induction ring head rule: for_each_cqe_from.induct)
  case (1 ring head)
  show ?case
  proof (cases "head = cq_ktail (cq ring)")
    case True
    then show ?thesis
      by (subst for_each_cqe_from.simps) (simp add: for_each_cqe_cond_def)
  next
    case False
    then have c: "for_each_cqe_cond ring head = Some (head AND cq_kring_mask (cq ring))"
      by (simp add: for_each_cqe_cond_def)
    from False have ne: "cq_ktail (cq ring) - head \<noteq> 0" by simp
    then have "unat (cq_ktail (cq ring) - head - 1) = unat (cq_ktail (cq ring) - head) - 1"
      by (rule unat_minus_one)
    moreover from ne have "unat (cq_ktail (cq ring) - head) \<noteq> 0"
      by (simp add: unat_eq_0)
    ultimately have n: "unat (cq_ktail (cq ring) - head) = Suc (unat (cq_ktail (cq ring) - (head + 1)))"
      by (simp add: diff_diff_eq)
    have "for_each_cqe_from ring head =
        (head AND cq_kring_mask (cq ring)) # for_each_cqe_from ring (head + 1)"
      using c by (simp add: for_each_cqe_from.simps [of ring head])
    also have "for_each_cqe_from ring (head + 1) =
        map (\<lambda>k. (head + 1 + of_nat k) AND cq_kring_mask (cq ring))
          [0..<unat (cq_ktail (cq ring) - (head + 1))]"
      using "1.IH" [OF c] .
    finally show ?thesis
      unfolding n by (simp add: map_upt_Suc add.assoc del: upt_Suc)
  qed
qed

text \<open>
  C5. For every completion ring with a fixed tail, the iteration macro yields the CQEs
  at \<open>cqes[head AND ring_mask]\<close> for \<open>head\<close> starting at \<open>cq.head\<close> and going up by one
  per iteration, and its controlling expression is null exactly when \<open>head\<close> equals the
  tail: the loop ends there, after \<open>tail - cq.head\<close> iterations.
\<close>

theorem for_each_cqe_yields:
  "io_uring_for_each_cqe ring =
     map (\<lambda>k. (cq_khead (cq ring) + of_nat k) AND cq_kring_mask (cq ring))
       [0..<unat (cq_ktail (cq ring) - cq_khead (cq ring))]
   \<and> for_each_cqe_cond ring head =
       (if head = cq_ktail (cq ring) then None else Some (head AND cq_kring_mask (cq ring)))"
  by (simp add: io_uring_for_each_cqe_def for_each_cqe_from_eq for_each_cqe_cond_def)

text \<open>
  Whatever value of \<open>err\<close> the loop of the peek helper starts with, a pointer it
  returns is to an entry that does not carry the timeout value.
\<close>

lemma peek_cqe_loop_Some:
  "peek_cqe_loop ring err = (e, Some i, ring') \<Longrightarrow>
     cqe_user_data (cq_cqes (cq ring') i) \<noteq> LIBURING_UDATA_TIMEOUT"
proof (induction ring err rule: peek_cqe_loop.induct)
  case (1 ring err)
  show ?case
  proof (cases "for_each_cqe_cond ring (cq_khead (cq ring))")
    case None
    with "1.prems" show ?thesis
      by (simp add: peek_cqe_loop.simps [of ring err])
  next
    case (Some cqe)
    show ?thesis
    proof (cases "cqe_user_data (cq_cqes (cq ring) cqe) = LIBURING_UDATA_TIMEOUT")
      case False
      with Some "1.prems" show ?thesis
        by (simp add: peek_cqe_loop.simps [of ring err])
    next
      case True
      define err' where "err' = (if sint (cqe_res (cq_cqes (cq ring) cqe)) < 0
                         then cqe_res (cq_cqes (cq ring) cqe) else err)"
      show ?thesis
      proof (cases "err' = 0")
        case z: True
        with Some True "1.prems"
        have "peek_cqe_loop (io_uring_cq_advance ring 1) err' = (e, Some i, ring')"
          by (simp add: peek_cqe_loop.simps [of ring err] err'_def Let_def)
        with "1.IH" [OF Some True err'_def refl z] show ?thesis .
      next
        case nz: False
        with Some True "1.prems" show ?thesis
          by (simp add: peek_cqe_loop.simps [of ring err] err'_def Let_def)
      qed
    qed
  qed
qed

lemma sint_neg_nonzero: "sint (w :: 32 word) < 0 \<Longrightarrow> w \<noteq> 0"
  by auto

text \<open>
  C1. For every completion ring, \<open>__io_uring_peek_cqe\<close> never returns through
  \<open>cqe_ptr\<close> a CQE whose user data is \<open>LIBURING_UDATA_TIMEOUT\<close>. When the first visible
  CQE carries that value, the head is advanced by one; if the \<open>res\<close> field of that CQE is
  negative, the function returns it with a null \<open>cqe_ptr\<close>, and otherwise it goes on
  with the next visible CQE (its result is its result on the advanced ring).
\<close>

theorem peek_cqe_consumes_timeout_cqes:
  "(uu_io_uring_peek_cqe ring = (err, Some i, ring') \<longrightarrow>
      cqe_user_data (cq_cqes (cq ring') i) \<noteq> LIBURING_UDATA_TIMEOUT)
   \<and> (let c = cq_cqes (cq ring) (cq_khead (cq ring) AND cq_kring_mask (cq ring));
           advanced = ring\<lparr>cq := (cq ring)\<lparr>cq_khead := cq_khead (cq ring) + 1\<rparr>\<rparr>
       in cq_khead (cq ring) \<noteq> cq_ktail (cq ring)
            \<and> cqe_user_data c = LIBURING_UDATA_TIMEOUT \<longrightarrow>
          (sint (cqe_res c) < 0 \<longrightarrow>
             uu_io_uring_peek_cqe ring = (cqe_res c, None, advanced))
        \<and> (\<not> sint (cqe_res c) < 0 \<longrightarrow>
             uu_io_uring_peek_cqe ring = uu_io_uring_peek_cqe advanced))"
proof -
  have ret: "uu_io_uring_peek_cqe ring = (err, Some i, ring') \<longrightarrow>
      cqe_user_data (cq_cqes (cq ring') i) \<noteq> LIBURING_UDATA_TIMEOUT"
    unfolding uu_io_uring_peek_cqe_def by (blast dest: peek_cqe_loop_Some)
  define c where "c = cq_cqes (cq ring) (cq_khead (cq ring) AND cq_kring_mask (cq ring))"
  define advanced where
    "advanced = ring\<lparr>cq := (cq ring)\<lparr>cq_khead := cq_khead (cq ring) + 1\<rparr>\<rparr>"
  have step: "(sint (cqe_res c) < 0 \<longrightarrow>
             uu_io_uring_peek_cqe ring = (cqe_res c, None, advanced))
        \<and> (\<not> sint (cqe_res c) < 0 \<longrightarrow>
             uu_io_uring_peek_cqe ring = uu_io_uring_peek_cqe advanced)"
    if h: "cq_khead (cq ring) \<noteq> cq_ktail (cq ring)"
      and u: "cqe_user_data c = LIBURING_UDATA_TIMEOUT"
  proof -
    from h have cond: "for_each_cqe_cond ring (cq_khead (cq ring))
        = Some (cq_khead (cq ring) AND cq_kring_mask (cq ring))"
      by (simp add: for_each_cqe_cond_def)
    have adv: "io_uring_cq_advance ring 1 = advanced"
      by (simp add: io_uring_cq_advance_def advanced_def)
    have unfold: "peek_cqe_loop ring 0 =
        (let err' = (if sint (cqe_res c) < 0 then cqe_res c else 0)
         in if err' = 0 then peek_cqe_loop advanced err' else (err', None, advanced))"
      by (subst peek_cqe_loop.simps) (simp add: cond c_def [symmetric] u adv)
    show ?thesis
      unfolding uu_io_uring_peek_cqe_def unfold
      by (auto simp: Let_def dest: sint_neg_nonzero)
  qed
  from ret step show ?thesis
    unfolding c_def advanced_def Let_def by blast
qed

lemma example_peek_2: "uu_io_uring_peek_cqe (example_ring 2) = (0, Some 2, example_ring 2)"
  unfolding uu_io_uring_peek_cqe_def
  by (subst peek_cqe_loop.simps)
    (simp add: for_each_cqe_cond_def example_ring_def example_cqes_def
      LIBURING_UDATA_TIMEOUT_def)

lemma example_peek_3: "uu_io_uring_peek_cqe (example_ring 3) = (0, None, example_ring 3)"
  unfolding uu_io_uring_peek_cqe_def
  by (subst peek_cqe_loop.simps) (simp add: for_each_cqe_cond_def example_ring_def)

theorem peek_cqe_consumes_timeout_cqes_witness:
  "cqe_user_data (cq_cqes (cq (example_ring 2)) 2) \<noteq> LIBURING_UDATA_TIMEOUT
   \<and> uu_io_uring_peek_cqe (example_ring 1) = (- 62, None, example_ring 2)
   \<and> uu_io_uring_peek_cqe (example_ring 0) = uu_io_uring_peek_cqe (example_ring 1)"
proof -
  have "cqe_user_data (cq_cqes (cq (example_ring 2)) 2) \<noteq> LIBURING_UDATA_TIMEOUT"
    using peek_cqe_consumes_timeout_cqes [of "example_ring 2" 0 2 "example_ring 2"]
      example_peek_2
    by simp
  moreover have "uu_io_uring_peek_cqe (example_ring 1) = (- 62, None, example_ring 2)"
    using peek_cqe_consumes_timeout_cqes [of "example_ring 1" 0 2 "example_ring 2"]
    by (simp add: Let_def example_ring_def example_cqes_def LIBURING_UDATA_TIMEOUT_def)
  moreover have "uu_io_uring_peek_cqe (example_ring 0) = uu_io_uring_peek_cqe (example_ring 1)"
    using peek_cqe_consumes_timeout_cqes [of "example_ring 0" 0 2 "example_ring 2"]
    by (simp add: Let_def example_ring_def example_cqes_def LIBURING_UDATA_TIMEOUT_def)
  ultimately show ?thesis by simp
qed

text \<open>
  C4. For every ring and every \<open>wait_nr\<close>, \<open>io_uring_wait_cqe_nr\<close> first peeks. If the
  peek yields an error or a CQE, that is the result, whatever the get-cqe helper is (it
  is not called). Otherwise the result is that of the helper called on the ring the
  peek left, with \<open>submit = 0\<close>, the given \<open>wait_nr\<close> and a null signal mask.
\<close>

theorem wait_cqe_nr_peeks_first:
  "(uu_io_uring_peek_cqe ring = (err, cqe, ring') \<and> (err \<noteq> 0 \<or> cqe \<noteq> None) \<longrightarrow>
      io_uring_wait_cqe_nr get_cqe ring wait_nr = (err, cqe, ring'))
   \<and> (uu_io_uring_peek_cqe ring = (0, None, ring') \<longrightarrow>
      io_uring_wait_cqe_nr get_cqe ring wait_nr = get_cqe ring' 0 wait_nr None)"
  by (simp add: io_uring_wait_cqe_nr_def)

theorem wait_cqe_nr_peeks_first_witness:
  "io_uring_wait_cqe_nr example_get_cqe (example_ring 2) 5 = (0, Some 2, example_ring 2)
   \<and> io_uring_wait_cqe_nr example_get_cqe (example_ring 3) 5 = (5, Some 0, example_ring 3)"
  using wait_cqe_nr_peeks_first [of "example_ring 2" 0 "Some 2" "example_ring 2" example_get_cqe 5]
    wait_cqe_nr_peeks_first [of "example_ring 3" 0 None "example_ring 3" example_get_cqe 5]
    example_peek_2 example_peek_3
  by (simp add: example_get_cqe_def)

subsection \<open>The probe\<close>

text \<open>
  C2. For every probe and every opcode index \<open>op\<close>, \<open>io_uring_opcode_supported\<close> returns
  0 when \<open>op\<close> is above \<open>last_op\<close>; and for an index inside the table of the probe it
  returns 1 if \<open>op \<le> last_op\<close> and the \<open>IO_URING_OP_SUPPORTED\<close> bit is set in
  \<open>ops[op].flags\<close>, and 0 otherwise.
\<close>

theorem opcode_supported_iff:
  "(uint (probe_last_op p) < sint op \<longrightarrow> io_uring_opcode_supported p op = Some 0)
   \<and> (0 \<le> sint op \<and> nat (sint op) < length (probe_ops p) \<longrightarrow>
        io_uring_opcode_supported p op =
          Some (if sint op \<le> uint (probe_last_op p)
                   \<and> probe_op_flags (probe_ops p ! nat (sint op)) AND IO_URING_OP_SUPPORTED \<noteq> 0
                then 1 else 0))"
  by (simp add: io_uring_opcode_supported_def)

theorem opcode_supported_iff_witness:
  "io_uring_opcode_supported example_probe 3 = Some 0
   \<and> io_uring_opcode_supported example_probe 2 = Some 1
   \<and> io_uring_opcode_supported example_probe 1 = Some 0"
  using opcode_supported_iff [of example_probe 3] opcode_supported_iff [of example_probe 2]
    opcode_supported_iff [of example_probe 1]
  by (simp add: example_probe_def IO_URING_OP_SUPPORTED_def)

subsection \<open>Preparing submission entries\<close>

lemmas upd_defs =
  upd_fsync_flags_def upd_poll_events_def upd_msg_flags_def upd_timeout_flags_def
  upd_accept_flags_def upd_cancel_flags_def upd_open_flags_def upd_statx_flags_def
  upd_fadvise_advice_def upd_splice_flags_def upd_splice_off_in_def upd_splice_fd_in_def
  upd_buf_index_def upd_buf_group_def

lemmas sqe_read_defs =
  sqe_fsync_flags_def sqe_poll_events_def sqe_msg_flags_def sqe_timeout_flags_def
  sqe_accept_flags_def sqe_cancel_flags_def sqe_open_flags_def sqe_statx_flags_def
  sqe_fadvise_advice_def sqe_splice_flags_def sqe_splice_off_in_def sqe_buf_group_def


lemmas prep_defs =
  io_uring_prep_splice_def io_uring_prep_readv_def io_uring_prep_read_fixed_def
  io_uring_prep_writev_def io_uring_prep_write_fixed_def io_uring_prep_recvmsg_def
  io_uring_prep_sendmsg_def io_uring_prep_poll_add_def io_uring_prep_poll_remove_def
  io_uring_prep_fsync_def io_uring_prep_nop_def io_uring_prep_timeout_def
  io_uring_prep_timeout_remove_def io_uring_prep_accept_def io_uring_prep_cancel_def
  io_uring_prep_link_timeout_def io_uring_prep_connect_def io_uring_prep_files_update_def
  io_uring_prep_fallocate_def io_uring_prep_openat_def io_uring_prep_close_def
  io_uring_prep_read_def io_uring_prep_write_def io_uring_prep_statx_def
  io_uring_prep_fadvise_def io_uring_prep_madvise_def io_uring_prep_send_def
  io_uring_prep_recv_def io_uring_prep_openat2_def io_uring_prep_epoll_ctl_def
  io_uring_prep_provide_buffers_def io_uring_prep_remove_buffers_def

text \<open>The stores after the call of the uniform function leave the user data alone.\<close>

lemma prep_rw_user_data [simp]: "sqe_user_data (io_uring_prep_rw op sqe fd addr len offset) = 0"
  by (simp add: io_uring_prep_rw_def)

lemma upd_user_data [simp]:
  "sqe_user_data (upd_fsync_flags v32 sqe) = sqe_user_data sqe"
  "sqe_user_data (upd_poll_events v16 sqe) = sqe_user_data sqe"
  "sqe_user_data (upd_msg_flags v32 sqe) = sqe_user_data sqe"
  "sqe_user_data (upd_timeout_flags v32 sqe) = sqe_user_data sqe"
  "sqe_user_data (upd_accept_flags v32 sqe) = sqe_user_data sqe"
  "sqe_user_data (upd_cancel_flags v32 sqe) = sqe_user_data sqe"
  "sqe_user_data (upd_open_flags v32 sqe) = sqe_user_data sqe"
  "sqe_user_data (upd_statx_flags v32 sqe) = sqe_user_data sqe"
  "sqe_user_data (upd_fadvise_advice v32 sqe) = sqe_user_data sqe"
  "sqe_user_data (upd_splice_flags v32 sqe) = sqe_user_data sqe"
  "sqe_user_data (upd_splice_off_in v64 sqe) = sqe_user_data sqe"
  "sqe_user_data (upd_splice_fd_in v32 sqe) = sqe_user_data sqe"
  "sqe_user_data (upd_buf_index v16 sqe) = sqe_user_data sqe"
  "sqe_user_data (upd_buf_group v16 sqe) = sqe_user_data sqe"
  by (simp_all add: upd_defs)

text \<open>
  C8. For every SQE and all arguments \<open>ts\<close>, \<open>count\<close> and \<open>flags\<close>,
  \<open>io_uring_prep_timeout\<close> stores the pointer \<open>ts\<close> in \<open>addr\<close>, \<open>count\<close> (extended to 64
  bits, its value unchanged) in \<open>off\<close> and \<open>flags\<close> in \<open>timeout_flags\<close>, with the opcode
  \<open>IORING_OP_TIMEOUT\<close> and the file descriptor \<open>-1\<close>.
\<close>

theorem prep_timeout_payload:
  "sqe_addr (io_uring_prep_timeout sqe ts cnt fl) = ts
   \<and> sqe_off (io_uring_prep_timeout sqe ts cnt fl) = ucast cnt
   \<and> uint (sqe_off (io_uring_prep_timeout sqe ts cnt fl)) = uint cnt
   \<and> sqe_timeout_flags (io_uring_prep_timeout sqe ts cnt fl) = fl
   \<and> sqe_opcode (io_uring_prep_timeout sqe ts cnt fl) = IORING_OP_TIMEOUT
   \<and> sqe_fd (io_uring_prep_timeout sqe ts cnt fl) = - 1
   \<and> sint (sqe_fd (io_uring_prep_timeout sqe ts cnt fl)) = - 1"
  by (simp add: io_uring_prep_timeout_def io_uring_prep_rw_def upd_timeout_flags_def
      sqe_timeout_flags_def uint_up_ucast is_up)

text \<open>
  C9. For every data value \<open>d\<close>, \<open>io_uring_cqe_get_data\<close> on a CQE whose user data equals
  the user data that \<open>io_uring_sqe_set_data sqe d\<close> stored returns \<open>d\<close>.
\<close>

theorem set_data_get_data_roundtrip:
  "cqe_user_data cqe = sqe_user_data (io_uring_sqe_set_data sqe d) \<Longrightarrow>
     io_uring_cqe_get_data cqe = d"
  by (simp add: io_uring_cqe_get_data_def io_uring_sqe_set_data_def)

theorem set_data_get_data_roundtrip_witness:
  "io_uring_cqe_get_data (example_cqes 2) = 0x4242"
  using set_data_get_data_roundtrip [of "example_cqes 2" example_sqe "0x4242"]
  by (simp add: example_cqes_def io_uring_sqe_set_data_def)

text \<open>
  C10. For every SQE, the uniform function and each of the preparation functions of the
  header leave 0 in the user data of the entry. So a token stored with
  \<open>io_uring_sqe_set_data\<close> before the preparation is gone after it (the entry is any
  entry, also one that \<open>io_uring_sqe_set_data\<close> returned), and a token stored after the
  preparation stays.
\<close>

theorem prep_clears_user_data:
  "sqe_user_data (io_uring_prep_rw op sqe fd addr len offset) = 0
   \<and> sqe_user_data (io_uring_prep_splice sqe fd_in off_in fd_out off_out nbytes splice_flags) = 0
   \<and> sqe_user_data (io_uring_prep_readv sqe fd iovecs nr_vecs offset) = 0
   \<and> sqe_user_data (io_uring_prep_read_fixed sqe fd buf nbytes offset buf_index) = 0
   \<and> sqe_user_data (io_uring_prep_writev sqe fd iovecs nr_vecs offset) = 0
   \<and> sqe_user_data (io_uring_prep_write_fixed sqe fd buf nbytes offset buf_index) = 0
   \<and> sqe_user_data (io_uring_prep_recvmsg sqe fd msg fl) = 0
   \<and> sqe_user_data (io_uring_prep_sendmsg sqe fd msg fl) = 0
   \<and> sqe_user_data (io_uring_prep_poll_add sqe fd poll_mask) = 0
   \<and> sqe_user_data (io_uring_prep_poll_remove sqe user_data) = 0
   \<and> sqe_user_data (io_uring_prep_fsync sqe fd fsync_flags) = 0
   \<and> sqe_user_data (io_uring_prep_nop sqe) = 0
   \<and> sqe_user_data (io_uring_prep_timeout sqe ts cnt fl) = 0
   \<and> sqe_user_data (io_uring_prep_timeout_remove sqe user_data fl) = 0
   \<and> sqe_user_data (io_uring_prep_accept sqe fd addr addrlen fl) = 0
   \<and> sqe_user_data (io_uring_prep_cancel sqe user_data fl) = 0
   \<and> sqe_user_data (io_uring_prep_link_timeout sqe ts fl) = 0
   \<and> sqe_user_data (io_uring_prep_connect sqe fd addr addrlen32) = 0
   \<and> sqe_user_data (io_uring_prep_files_update sqe fds nr_fds offset32) = 0
   \<and> sqe_user_data (io_uring_prep_fallocate sqe fd mode offset len64) = 0
   \<and> sqe_user_data (io_uring_prep_openat sqe dfd path fl mode) = 0
   \<and> sqe_user_data (io_uring_prep_close sqe fd) = 0
   \<and> sqe_user_data (io_uring_prep_read sqe fd buf nbytes offset) = 0
   \<and> sqe_user_data (io_uring_prep_write sqe fd buf nbytes offset) = 0
   \<and> sqe_user_data (io_uring_prep_statx sqe dfd path fl msk statxbuf) = 0
   \<and> sqe_user_data (io_uring_prep_fadvise sqe fd offset len64 advice) = 0
   \<and> sqe_user_data (io_uring_prep_madvise sqe addr len64 advice) = 0
   \<and> sqe_user_data (io_uring_prep_send sqe sockfd buf len64 fl) = 0
   \<and> sqe_user_data (io_uring_prep_recv sqe sockfd buf len64 fl) = 0
   \<and> sqe_user_data (io_uring_prep_openat2 sizeof_how sqe dfd path how) = 0
   \<and> sqe_user_data (io_uring_prep_epoll_ctl sqe epfd fd ctl_op ev) = 0
   \<and> sqe_user_data (io_uring_prep_provide_buffers sqe addr len nr bgid bid) = 0
   \<and> sqe_user_data (io_uring_prep_remove_buffers sqe nr bgid) = 0
   \<and> sqe_user_data (io_uring_prep_rw op (io_uring_sqe_set_data sqe d) fd addr len offset) = 0
   \<and> sqe_user_data (io_uring_sqe_set_data (io_uring_prep_rw op sqe fd addr len offset) d) = d"
  by (simp add: prep_defs io_uring_sqe_set_data_def)

text \<open>
  The uniform function stores to every cell of the entry: its result does not depend on
  what the entry held before. All per-opcode flags read 0 after it.
\<close>

lemma prep_rw_overwrites:
  "io_uring_prep_rw op sqe fd addr len offset =
     \<lparr>sqe_opcode = op, sqe_flags = 0, sqe_ioprio = 0, sqe_fd = fd, sqe_off = offset,
      sqe_addr = addr, sqe_len = len, sqe_rw_flags = 0, sqe_user_data = 0,
      sqe_buf_index = 0, sqe_personality = 0, sqe_splice_fd_in = 0, sqe_pad2_1 = 0,
      sqe_pad2_2 = 0\<rparr>"
  by (cases sqe) (simp add: io_uring_prep_rw_def)

lemma prep_rw_flags_zero:
  "sqe_rw_flags (io_uring_prep_rw op sqe fd addr len offset) = 0"
  "sqe_fsync_flags (io_uring_prep_rw op sqe fd addr len offset) = 0"
  "sqe_poll_events (io_uring_prep_rw op sqe fd addr len offset) = 0"
  "sqe_msg_flags (io_uring_prep_rw op sqe fd addr len offset) = 0"
  "sqe_timeout_flags (io_uring_prep_rw op sqe fd addr len offset) = 0"
  "sqe_accept_flags (io_uring_prep_rw op sqe fd addr len offset) = 0"
  "sqe_cancel_flags (io_uring_prep_rw op sqe fd addr len offset) = 0"
  "sqe_open_flags (io_uring_prep_rw op sqe fd addr len offset) = 0"
  "sqe_statx_flags (io_uring_prep_rw op sqe fd addr len offset) = 0"
  "sqe_fadvise_advice (io_uring_prep_rw op sqe fd addr len offset) = 0"
  "sqe_splice_flags (io_uring_prep_rw op sqe fd addr len offset) = 0"
  by (simp_all add: io_uring_prep_rw_def sqe_read_defs)

text \<open>What a store to a member changes, and what the member reads after it.\<close>

lemma same_but_op_flags_upd:
  "same_but_op_flags sqe (upd_fsync_flags v sqe)"
  "same_but_op_flags sqe (upd_poll_events v16 sqe)"
  "same_but_op_flags sqe (upd_msg_flags v sqe)"
  "same_but_op_flags sqe (upd_timeout_flags v sqe)"
  "same_but_op_flags sqe (upd_accept_flags v sqe)"
  "same_but_op_flags sqe (upd_cancel_flags v sqe)"
  "same_but_op_flags sqe (upd_open_flags v sqe)"
  "same_but_op_flags sqe (upd_statx_flags v sqe)"
  "same_but_op_flags sqe (upd_fadvise_advice v sqe)"
  by (simp_all add: same_but_op_flags_def upd_defs)

lemma same_but_buf_index_upd:
  "same_but_buf_index sqe (upd_buf_index v sqe)"
  "same_but_buf_index sqe (upd_buf_group v sqe)"
  by (simp_all add: same_but_buf_index_def upd_defs)

lemma read_after_upd:
  "sqe_fsync_flags (upd_fsync_flags v sqe) = v"
  "sqe_msg_flags (upd_msg_flags v sqe) = v"
  "sqe_timeout_flags (upd_timeout_flags v sqe) = v"
  "sqe_accept_flags (upd_accept_flags v sqe) = v"
  "sqe_cancel_flags (upd_cancel_flags v sqe) = v"
  "sqe_open_flags (upd_open_flags v sqe) = v"
  "sqe_statx_flags (upd_statx_flags v sqe) = v"
  "sqe_fadvise_advice (upd_fadvise_advice v sqe) = v"
  "sqe_buf_index (upd_buf_index v16 sqe) = v16"
  "sqe_buf_group (upd_buf_group v16 sqe) = v16"
  by (simp_all add: upd_defs sqe_read_defs)

lemma poll_events_after_upd: "sqe_poll_events (upd_poll_events v sqe) = v"
proof -
  have "ucast ((w AND NOT (mask 16)) OR (ucast v :: 32 word)) = v" for w :: "32 word"
    by (rule bit_word_eqI) (auto simp: bit_simps)
  then show ?thesis
    by (simp add: upd_poll_events_def sqe_poll_events_def)
qed

text \<open>
  C3, as the spec states it, fails: \<open>io_uring_prep_splice\<close> stores to three members
  after the call of the uniform function, two of which are no flag fields
  (\<^verbatim>\<open>splice_off_in\<close>, which is the cell of \<^verbatim>\<open>addr\<close>, and \<^verbatim>\<open>splice_fd_in\<close>), and
  \<open>io_uring_prep_read_fixed\<close> stores to \<^verbatim>\<open>buf_index\<close>. Their results differ from the
  result of the uniform function in cells other than the per-opcode flags.
\<close>

theorem prep_wrappers_one_flag_field_counterexample:
  "\<not> same_but_op_flags
       (io_uring_prep_rw IORING_OP_SPLICE example_sqe 4 0 16 0)
       (io_uring_prep_splice example_sqe 3 7 4 0 16 0)
   \<and> sqe_splice_fd_in (io_uring_prep_rw IORING_OP_SPLICE example_sqe 4 0 16 0) = 0
   \<and> sqe_splice_fd_in (io_uring_prep_splice example_sqe 3 7 4 0 16 0) = 3
   \<and> \<not> same_but_op_flags
       (io_uring_prep_rw IORING_OP_READ_FIXED example_sqe 3 7 4 0)
       (io_uring_prep_read_fixed example_sqe 3 7 4 0 5)"
  by (simp add: same_but_op_flags_def io_uring_prep_splice_def io_uring_prep_read_fixed_def
      io_uring_prep_rw_def upd_defs example_sqe_def)

text \<open>
  C3, amended. The uniform function stores the opcode, the file descriptor, the address,
  the length and the offset it is given and 0 to every other cell (per-entry flags,
  priority, per-opcode flags, user data, padding). Every preparation function calls it
  and then stores to the members of its own opcode only, every other cell being as the
  uniform function left it:
  \<^item> no member: readv, writev, poll_remove, nop, connect, files_update, fallocate,
    close, read, write, openat2, epoll_ctl;
  \<^item> the one per-opcode flag field: recvmsg, sendmsg, poll_add, fsync, timeout,
    timeout_remove, accept, cancel, link_timeout, openat, statx, fadvise, madvise,
    send, recv;
  \<^item> \<^verbatim>\<open>buf_index\<close> or \<^verbatim>\<open>buf_group\<close> only: read_fixed, write_fixed, provide_buffers,
    remove_buffers;
  \<^item> \<^verbatim>\<open>splice_off_in\<close> (the cell of \<^verbatim>\<open>addr\<close>), \<^verbatim>\<open>splice_fd_in\<close> and
    \<^verbatim>\<open>splice_flags\<close>: splice.
\<close>

theorem prep_wrappers_frame:
  "io_uring_prep_rw op sqe fd addr len offset =
     \<lparr>sqe_opcode = op, sqe_flags = 0, sqe_ioprio = 0, sqe_fd = fd, sqe_off = offset,
      sqe_addr = addr, sqe_len = len, sqe_rw_flags = 0, sqe_user_data = 0,
      sqe_buf_index = 0, sqe_personality = 0, sqe_splice_fd_in = 0, sqe_pad2_1 = 0,
      sqe_pad2_2 = 0\<rparr>
   \<and> io_uring_prep_readv sqe fd iovecs nr_vecs offset =
       io_uring_prep_rw IORING_OP_READV sqe fd iovecs nr_vecs offset
   \<and> io_uring_prep_writev sqe fd iovecs nr_vecs offset =
       io_uring_prep_rw IORING_OP_WRITEV sqe fd iovecs nr_vecs offset
   \<and> io_uring_prep_poll_remove sqe user_data =
       io_uring_prep_rw IORING_OP_POLL_REMOVE sqe (- 1) user_data 0 0
   \<and> io_uring_prep_nop sqe = io_uring_prep_rw IORING_OP_NOP sqe (- 1) 0 0 0
   \<and> io_uring_prep_connect sqe fd addr addrlen32 =
       io_uring_prep_rw IORING_OP_CONNECT sqe fd addr 0 (ucast addrlen32)
   \<and> io_uring_prep_files_update sqe fds nr_fds offset32 =
       io_uring_prep_rw IORING_OP_FILES_UPDATE sqe (- 1) fds nr_fds (scast offset32)
   \<and> io_uring_prep_fallocate sqe fd mode offset len64 =
       io_uring_prep_rw IORING_OP_FALLOCATE sqe fd len64 mode offset
   \<and> io_uring_prep_close sqe fd = io_uring_prep_rw IORING_OP_CLOSE sqe fd 0 0 0
   \<and> io_uring_prep_read sqe fd buf nbytes offset =
       io_uring_prep_rw IORING_OP_READ sqe fd buf nbytes offset
   \<and> io_uring_prep_write sqe fd buf nbytes offset =
       io_uring_prep_rw IORING_OP_WRITE sqe fd buf nbytes offset
   \<and> io_uring_prep_openat2 sizeof_how sqe dfd path how =
       io_uring_prep_rw IORING_OP_OPENAT2 sqe dfd path sizeof_how how
   \<and> io_uring_prep_epoll_ctl sqe epfd fd ctl_op ev =
       io_uring_prep_rw IORING_OP_EPOLL_CTL sqe epfd ev ctl_op (scast fd)
   \<and> same_but_op_flags (io_uring_prep_rw IORING_OP_RECVMSG sqe fd msg 1 0)
         (io_uring_prep_recvmsg sqe fd msg fl)
   \<and> sqe_msg_flags (io_uring_prep_recvmsg sqe fd msg fl) = fl
   \<and> same_but_op_flags (io_uring_prep_rw IORING_OP_SENDMSG sqe fd msg 1 0)
         (io_uring_prep_sendmsg sqe fd msg fl)
   \<and> sqe_msg_flags (io_uring_prep_sendmsg sqe fd msg fl) = fl
   \<and> same_but_op_flags (io_uring_prep_rw IORING_OP_POLL_ADD sqe fd 0 0 0)
         (io_uring_prep_poll_add sqe fd poll_mask)
   \<and> sqe_poll_events (io_uring_prep_poll_add sqe fd poll_mask) = poll_mask
   \<and> same_but_op_flags (io_uring_prep_rw IORING_OP_FSYNC sqe fd 0 0 0)
         (io_uring_prep_fsync sqe fd fsync_flags)
   \<and> sqe_fsync_flags (io_uring_prep_fsync sqe fd fsync_flags) = fsync_flags
   \<and> same_but_op_flags (io_uring_prep_rw IORING_OP_TIMEOUT sqe (- 1) ts 1 (ucast cnt))
         (io_uring_prep_timeout sqe ts cnt fl)
   \<and> sqe_timeout_flags (io_uring_prep_timeout sqe ts cnt fl) = fl
   \<and> same_but_op_flags (io_uring_prep_rw IORING_OP_TIMEOUT_REMOVE sqe (- 1) user_data 0 0)
         (io_uring_prep_timeout_remove sqe user_data fl)
   \<and> sqe_timeout_flags (io_uring_prep_timeout_remove sqe user_data fl) = fl
   \<and> same_but_op_flags (io_uring_prep_rw IORING_OP_ACCEPT sqe fd addr 0 addrlen)
         (io_uring_prep_accept sqe fd addr addrlen fl)
   \<and> sqe_accept_flags (io_uring_prep_accept sqe fd addr addrlen fl) = fl
   \<and> same_but_op_flags (io_uring_prep_rw IORING_OP_ASYNC_CANCEL sqe (- 1) user_data 0 0)
         (io_uring_prep_cancel sqe user_data fl)
   \<and> sqe_cancel_flags (io_uring_prep_cancel sqe user_data fl) = fl
   \<and> same_but_op_flags (io_uring_prep_rw IORING_OP_LINK_TIMEOUT sqe (- 1) ts 1 0)
         (io_uring_prep_link_timeout sqe ts fl)
   \<and> sqe_timeout_flags (io_uring_prep_link_timeout sqe ts fl) = fl
   \<and> same_but_op_flags (io_uring_prep_rw IORING_OP_OPENAT sqe dfd path mode 0)
         (io_uring_prep_openat sqe dfd path fl mode)
   \<and> sqe_open_flags (io_uring_prep_openat sqe dfd path fl mode) = fl
   \<and> same_but_op_flags (io_uring_prep_rw IORING_OP_STATX sqe dfd path msk statxbuf)
         (io_uring_prep_statx sqe dfd path fl msk statxbuf)
   \<and> sqe_statx_flags (io_uring_prep_statx sqe dfd path fl msk statxbuf) = fl
   \<and> same_but_op_flags (io_uring_prep_rw IORING_OP_FADVISE sqe fd 0 (ucast len64) offset)
         (io_uring_prep_fadvise sqe fd offset len64 advice)
   \<and> sqe_fadvise_advice (io_uring_prep_fadvise sqe fd offset len64 advice) = advice
   \<and> same_but_op_flags (io_uring_prep_rw IORING_OP_MADVISE sqe (- 1) addr (ucast len64) 0)
         (io_uring_prep_madvise sqe addr len64 advice)
   \<and> sqe_fadvise_advice (io_uring_prep_madvise sqe addr len64 advice) = advice
   \<and> same_but_op_flags (io_uring_prep_rw IORING_OP_SEND sqe sockfd buf (ucast len64) 0)
         (io_uring_prep_send sqe sockfd buf len64 fl)
   \<and> sqe_msg_flags (io_uring_prep_send sqe sockfd buf len64 fl) = fl
   \<and> same_but_op_flags (io_uring_prep_rw IORING_OP_RECV sqe sockfd buf (ucast len64) 0)
         (io_uring_prep_recv sqe sockfd buf len64 fl)
   \<and> sqe_msg_flags (io_uring_prep_recv sqe sockfd buf len64 fl) = fl
   \<and> same_but_buf_index (io_uring_prep_rw IORING_OP_READ_FIXED sqe fd buf nbytes offset)
         (io_uring_prep_read_fixed sqe fd buf nbytes offset buf_index)
   \<and> sqe_buf_index (io_uring_prep_read_fixed sqe fd buf nbytes offset buf_index)
       = ucast buf_index
   \<and> same_but_buf_index (io_uring_prep_rw IORING_OP_WRITE_FIXED sqe fd buf nbytes offset)
         (io_uring_prep_write_fixed sqe fd buf nbytes offset buf_index)
   \<and> sqe_buf_index (io_uring_prep_write_fixed sqe fd buf nbytes offset buf_index)
       = ucast buf_index
   \<and> same_but_buf_index (io_uring_prep_rw IORING_OP_PROVIDE_BUFFERS sqe nr addr len (scast bid))
         (io_uring_prep_provide_buffers sqe addr len nr bgid bid)
   \<and> sqe_buf_group (io_uring_prep_provide_buffers sqe addr len nr bgid bid) = ucast bgid
   \<and> same_but_buf_index (io_uring_prep_rw IORING_OP_REMOVE_BUFFERS sqe nr 0 0 0)
         (io_uring_prep_remove_buffers sqe nr bgid)
   \<and> sqe_buf_group (io_uring_prep_remove_buffers sqe nr bgid) = ucast bgid
   \<and> io_uring_prep_splice sqe fd_in off_in fd_out off_out nbytes splice_flags =
       (io_uring_prep_rw IORING_OP_SPLICE sqe fd_out 0 nbytes off_out)
         \<lparr>sqe_addr := off_in, sqe_splice_fd_in := fd_in, sqe_rw_flags := splice_flags\<rparr>
   \<and> sqe_splice_off_in
         (io_uring_prep_splice sqe fd_in off_in fd_out off_out nbytes splice_flags) = off_in
   \<and> sqe_splice_flags
         (io_uring_prep_splice sqe fd_in off_in fd_out off_out nbytes splice_flags)
       = splice_flags"
  unfolding prep_defs
  by (intro conjI refl prep_rw_overwrites same_but_op_flags_upd same_but_buf_index_upd
      read_after_upd poll_events_after_upd)
    (simp_all add: upd_defs sqe_read_defs)

end
